theory Spec2Isabelle
  imports Main
begin

section \<open>Classes (dywypi/event.py and the classes of dywypi/plugin.py)\<close>

text \<open>
  Dispatch uses a class as a dictionary key and through \<open>cls.__mro__\<close>. A class
  object is modelled by its identity and the rest of its method resolution order, so
  that classes defined elsewhere (a subclass of \<open>Message\<close> made by a transport or a
  plugin) are values of the same type: \<open>Other n\<close> is the identity of such a class.
\<close>

datatype cls = Object | Event | Message | CommandMessage | DummyEvent | Load | Other string

datatype pyclass = Class cls "cls list"

fun class_id :: "pyclass \<Rightarrow> cls" where
  "class_id (Class c bs) = c"

fun mro :: "pyclass \<Rightarrow> cls list" where
  "mro (Class c bs) = c # bs"

definition Event_class :: pyclass where
  "Event_class = Class Event [Object]"

definition Message_class :: pyclass where
  "Message_class = Class Message [Event, Object]"

definition CommandMessage_class :: pyclass where
  "CommandMessage_class = Class CommandMessage [Message, Event, Object]"

definition DummyEvent_class :: pyclass where
  "DummyEvent_class = Class DummyEvent [Object]"

definition Load_class :: pyclass where
  "Load_class = Class Load [DummyEvent, Object]"

definition issubclass :: "pyclass \<Rightarrow> cls \<Rightarrow> bool" where
  "issubclass c b = (b \<in> set (mro c))"

datatype error = TypeError | KeyError | IndexError | AttributeError

section \<open>Events\<close>

text \<open>
  An event object: its class, \<open>event.client.nick\<close>, and \<open>event.raw_message.args\<close>.
  \<open>Event.__init__\<close> sets \<open>client\<close>, \<open>loop\<close> and \<open>raw_message\<close> and nothing else, so
  an object built by a class of event.py has no attribute \<open>source\<close> or \<open>target\<close>:
  the two fields are \<open>None\<close> when the attribute is absent. The last three fields are the
  attributes that \<open>Plugin.fire_command\<close> and command handlers read from a command
  event; an object without them leaves them empty.
\<close>

record event =
  etype :: pyclass
  nick :: string
  raw_args :: "string list"
  source :: "string option"
  target :: "string option"
  command_name :: string
  argstr :: string
  args :: "string list"

text \<open>
  \<open>Event.__init__(self, client, raw_message)\<close> as the binding of a call's arguments:
  a call with \<open>npos\<close> positional arguments (after \<open>self\<close>) and the keyword arguments
  \<open>kws\<close> is accepted when every parameter is bound once and no argument is left
  over; otherwise the call raises TypeError.
\<close>

definition Event_init_accepts :: "nat \<Rightarrow> string list \<Rightarrow> bool" where
  "Event_init_accepts npos kws =
     (npos \<le> 2 \<and> distinct kws \<and> set kws = set (drop npos [''client'', ''raw_message'']))"

text \<open>\<open>cls(client, raw_message)\<close> for a class that inherits \<open>Event.__init__\<close>.\<close>

definition Event_init :: "pyclass \<Rightarrow> string \<Rightarrow> string list \<Rightarrow> event" where
  "Event_init c client_nick raw =
     \<lparr>etype = c, nick = client_nick, raw_args = raw, source = None, target = None,
      command_name = [], argstr = [], args = []\<rparr>"

definition isinstance :: "event \<Rightarrow> cls \<Rightarrow> bool" where
  "isinstance ev c = issubclass (etype ev) c"

text \<open>
  The properties \<open>Message.channel\<close> and \<open>Message.message\<close>: \<open>raw_message.args[0]\<close>
  and \<open>raw_message.args[1]\<close>. An object that is not a \<open>Message\<close> has neither.
\<close>

definition channel :: "event \<Rightarrow> error + string" where
  "channel ev =
     (if isinstance ev Message
      then (case raw_args ev of [] \<Rightarrow> Inl IndexError | c # _ \<Rightarrow> Inr c)
      else Inl AttributeError)"

definition message :: "event \<Rightarrow> error + string" where
  "message ev =
     (if isinstance ev Message
      then (case raw_args ev of c # m # _ \<Rightarrow> Inr m | _ \<Rightarrow> Inl IndexError)
      else Inl AttributeError)"

definition getattr_source :: "event \<Rightarrow> error + string" where
  "getattr_source ev = (case source ev of None \<Rightarrow> Inl AttributeError | Some s \<Rightarrow> Inr s)"

definition getattr_target :: "event \<Rightarrow> error + string" where
  "getattr_target ev = (case target ev of None \<Rightarrow> Inl AttributeError | Some t \<Rightarrow> Inr t)"

text \<open>Python's truth value of a string: the empty string is false.\<close>

definition truthy :: "string \<Rightarrow> bool" where
  "truthy s = (s \<noteq> [])"

section \<open>The string methods used by the command parser\<close>

text \<open>
  Text is modelled as a list of code points below 256; \<open>isspace\<close> is \<open>str.isspace\<close>
  on them.
\<close>

definition isspace :: "char \<Rightarrow> bool" where
  "isspace c = (c \<in> {CHR 0x09, CHR 0x0A, CHR 0x0B, CHR 0x0C, CHR 0x0D, CHR 0x1C, CHR 0x1D,
     CHR 0x1E, CHR 0x1F, CHR 0x20, CHR 0x85, CHR 0xA0})"

definition startswith :: "string \<Rightarrow> string \<Rightarrow> bool" where
  "startswith s p = (take (length p) s = p)"

text \<open>\<open>s[i]\<close> for a non-negative index: out of range raises IndexError.\<close>

definition char_at :: "string \<Rightarrow> nat \<Rightarrow> error + char" where
  "char_at s i = (if i < length s then Inr (s ! i) else Inl IndexError)"

definition strip :: "string \<Rightarrow> string" where
  "strip s = rev (dropWhile isspace (rev (dropWhile isspace s)))"

text \<open>
  \<open>s.split(None, 1)\<close>: leading whitespace is skipped; the first word ends at the next
  whitespace character; the rest, after the whitespace that follows the word, is the
  second item when it is not empty.
\<close>

definition split1 :: "string \<Rightarrow> string list" where
  "split1 s =
     (let s1 = dropWhile isspace s in
      if s1 = [] then []
      else
        let w = takeWhile (\<lambda>c. \<not> isspace c) s1;
            r = dropWhile isspace (dropWhile (\<lambda>c. \<not> isspace c) s1)
        in if r = [] then [w] else [w, r])"

text \<open>\<open>s.split()\<close>: the maximal runs of non-whitespace characters, in order.\<close>

fun split_words :: "string \<Rightarrow> string \<Rightarrow> string list" where
  "split_words [] cur = (if cur = [] then [] else [rev cur])"
| "split_words (c # cs) cur =
     (if isspace c then (if cur = [] then split_words cs [] else rev cur # split_words cs [])
      else split_words cs (c # cur))"

definition split_all :: "string \<Rightarrow> string list" where
  "split_all s = split_words s []"

text \<open>\<open>s.rpartition('.')\<close>: the parts before and after the last dot, or \<open>('', '', s)\<close>.\<close>

definition rpartition :: "string \<Rightarrow> string \<times> string \<times> string" where
  "rpartition s =
     (if CHR ''.'' \<in> set s
      then (rev (tl (dropWhile (\<lambda>c. c \<noteq> CHR ''.'') (rev s))), ''.'',
            rev (takeWhile (\<lambda>c. c \<noteq> CHR ''.'') (rev s)))
      else ([], [], s))"

section \<open>Wrapped events and scheduled tasks\<close>

type_synonym coro = nat

text \<open>
  \<open>PluginDataWrapper(plugin_data, event)\<close>: the view holds a reference to the
  \<open>PluginData\<close> object of one plugin, named here by the plugin's name, and the event.
\<close>

record PluginDataWrapper =
  data_plugin :: string
  data_event :: event

record EventWrapper =
  wrapped_event :: event
  wrapped_type :: pyclass
  wrapped_data :: PluginDataWrapper

text \<open>
  \<open>asyncio.async(coro(event), loop=event.loop)\<close> hands one task to the event loop
  and returns its future: a task is the coroutine function and the wrapped event it is
  called with.
\<close>

datatype task = Task coro EventWrapper

fun task_coro :: "task \<Rightarrow> coro" where
  "task_coro (Task f w) = f"

fun task_event :: "task \<Rightarrow> EventWrapper" where
  "task_event (Task f w) = w"

section \<open>Plugin\<close>

record PluginCommand =
  coro_of :: coro
  is_global_of :: bool

text \<open>\<open>listeners\<close> is a \<open>defaultdict(list)\<close> keyed by the class object.\<close>

record Plugin =
  name :: string
  listeners :: "cls \<Rightarrow> coro list"
  commands :: "string \<rightharpoonup> PluginCommand"

definition Plugin_init :: "string \<Rightarrow> Plugin" where
  "Plugin_init n = \<lparr>name = n, listeners = (\<lambda>_. []), commands = Map.empty\<rparr>"

text \<open>
  The loop of \<open>Plugin.on\<close>'s decorator over \<open>event_cls.__mro__\<close>: it stops at
  \<open>Event\<close> and appends the coroutine to the listeners of every class before it.
\<close>

fun on_loop :: "Plugin \<Rightarrow> cls list \<Rightarrow> coro \<Rightarrow> Plugin" where
  "on_loop self [] f = self"
| "on_loop self (c # cs) f =
     (if c = Event then self
      else on_loop (self\<lparr>listeners := (listeners self)(c := listeners self c @ [f])\<rparr>) cs f)"

definition Plugin_on :: "Plugin \<Rightarrow> pyclass \<Rightarrow> coro \<Rightarrow> error + Plugin" where
  "Plugin_on self event_cls f =
     (if issubclass event_cls Event \<or> issubclass event_cls DummyEvent
      then Inr (on_loop self (mro event_cls) f)
      else Inl TypeError)"

definition Plugin_command :: "Plugin \<Rightarrow> string \<Rightarrow> bool \<Rightarrow> coro \<Rightarrow> Plugin" where
  "Plugin_command self cname is_global f =
     self\<lparr>commands := (commands self)(cname \<mapsto> \<lparr>coro_of = f, is_global_of = is_global\<rparr>)\<rparr>"

definition Plugin_fire :: "Plugin \<Rightarrow> EventWrapper \<Rightarrow> task list" where
  "Plugin_fire self w =
     map (\<lambda>listener. Task listener w) (listeners self (class_id (wrapped_type w)))"

definition Plugin_fire_command :: "Plugin \<Rightarrow> EventWrapper \<Rightarrow> bool \<Rightarrow> task list" where
  "Plugin_fire_command self w is_global =
     (case commands self (command_name (wrapped_event w)) of
        None \<Rightarrow> []
      | Some command \<Rightarrow>
          if is_global_of command \<or> \<not> is_global then [Task (coro_of command) w] else [])"

text \<open>
  \<open>CommandMessage.__init__(self, source, target, message, command_name, argstr,
  **kwargs)\<close> first calls \<open>super().__init__(source, target, message, **kwargs)\<close>.
  \<open>Message\<close> defines no \<open>__init__\<close>, so this is \<open>Event.__init__\<close> with three
  positional arguments and the keywords of the caller, which \<open>PluginManager.fire\<close>
  gives as \<open>client\<close> and \<open>raw\<close>. Only when that call is accepted are the three
  attributes set.
\<close>

definition CommandMessage_init ::
  "string \<Rightarrow> string \<Rightarrow> string \<Rightarrow> string \<Rightarrow> string \<Rightarrow> string \<Rightarrow> string list
     \<Rightarrow> error + event" where
  "CommandMessage_init src tgt msg cname astr client_nick raw =
     (if Event_init_accepts 3 [''client'', ''raw'']
      then Inr \<lparr>etype = CommandMessage_class, nick = client_nick, raw_args = raw,
                source = Some src, target = Some tgt,
                command_name = cname, argstr = astr, args = split_all (strip astr)\<rparr>
      else Inl TypeError)"

section \<open>PluginData and PluginManager\<close>

text \<open>
  A slot class of \<open>per_channel\<close> is any callable: \<open>slot_call T ch h\<close> is the call
  \<open>T(ch)\<close> made when \<open>h\<close> objects exist (their addresses are the numbers below
  \<open>h\<close>). It returns an object or raises, and gives the number of objects that exist
  afterwards. \<open>slot_name\<close> tells apart callables that behave alike.
\<close>

record slot_class =
  slot_name :: string
  slot_call :: "string \<Rightarrow> nat \<Rightarrow> (error + nat) \<times> nat"

text \<open>
  \<open>PluginData\<close>: \<open>general\<close> is a dict, and the attribute itself can be deleted
  (\<open>None\<close> below); \<open>per_channel\<close> is a \<open>defaultdict(dict)\<close> from the channel to a dict
  from the slot class to the object stored for it.
\<close>

record PluginData =
  general :: "(string \<rightharpoonup> string) option"
  per_channel :: "string \<Rightarrow> (slot_class \<rightharpoonup> nat)"

definition PluginData_init :: PluginData where
  "PluginData_init = \<lparr>general = Some Map.empty, per_channel = (\<lambda>_. Map.empty)\<rparr>"

text \<open>
  \<open>loaded_plugins\<close> is a dict, kept as the list of its items in iteration order;
  \<open>plugin_data\<close> is a \<open>defaultdict(PluginData)\<close> keyed by the plugin object, which the
  registry of \<open>BasePlugin\<close> identifies with its name.
\<close>

record PluginManager =
  loaded_plugins :: "(string \<times> Plugin) list"
  plugin_data :: "string \<Rightarrow> PluginData"

definition PluginManager_init :: PluginManager where
  "PluginManager_init = \<lparr>loaded_plugins = [], plugin_data = (\<lambda>_. PluginData_init)\<rparr>"

fun dict_set :: "('k \<times> 'v) list \<Rightarrow> 'k \<Rightarrow> 'v \<Rightarrow> ('k \<times> 'v) list" where
  "dict_set [] k v = [(k, v)]"
| "dict_set ((k', v') # kvs) k v =
     (if k' = k then (k, v) # kvs else (k', v') # dict_set kvs k v)"

definition PluginManager_load ::
  "(string \<times> Plugin) list \<Rightarrow> PluginManager \<Rightarrow> string \<Rightarrow> error + PluginManager" where
  "PluginManager_load known_plugins self plugin_name =
     (if plugin_name \<in> set (map fst (loaded_plugins self)) then Inr self
      else case map_of known_plugins plugin_name of
          None \<Rightarrow> Inl KeyError
        | Some plugin \<Rightarrow>
            Inr (self\<lparr>loaded_plugins := dict_set (loaded_plugins self) (name plugin) plugin\<rparr>))"

text \<open>
  \<open>_wrap_event\<close> binds the view to \<open>self.plugin_data[plugin]\<close>, the \<open>PluginData\<close> of
  the plugin the event is fired on.
\<close>

definition PluginManager__wrap_event :: "PluginManager \<Rightarrow> event \<Rightarrow> Plugin \<Rightarrow> EventWrapper" where
  "PluginManager__wrap_event self ev plugin =
     \<lparr>wrapped_event = ev, wrapped_type = etype ev,
      wrapped_data = \<lparr>data_plugin = name plugin, data_event = ev\<rparr>\<rparr>"

definition PluginManager__fire_on :: "PluginManager \<Rightarrow> event \<Rightarrow> Plugin \<Rightarrow> task list" where
  "PluginManager__fire_on self ev plugin =
     Plugin_fire plugin (PluginManager__wrap_event self ev plugin)"

definition PluginManager__fire :: "PluginManager \<Rightarrow> event \<Rightarrow> task list" where
  "PluginManager__fire self ev =
     concat (map (\<lambda>plugin. PluginManager__fire_on self ev plugin)
       (map snd (loaded_plugins self)))"

definition PluginManager__fire_global_command :: "PluginManager \<Rightarrow> event \<Rightarrow> task list" where
  "PluginManager__fire_global_command self command_event =
     concat (map (\<lambda>plugin.
         Plugin_fire_command plugin (PluginManager__wrap_event self command_event plugin) True)
       (map snd (loaded_plugins self)))"

definition PluginManager__fire_plugin_command ::
  "PluginManager \<Rightarrow> string \<Rightarrow> event \<Rightarrow> error + task list" where
  "PluginManager__fire_plugin_command self plugin_name command_event =
     (case map_of (loaded_plugins self) plugin_name of
        None \<Rightarrow> Inl KeyError
      | Some plugin \<Rightarrow>
          Inr (Plugin_fire_command plugin
                 (PluginManager__wrap_event self command_event plugin) False))"

text \<open>
  The parts of \<open>PluginManager.fire\<close>, in the order in which the method runs them.
  \<open>is_command_of\<close> is the addressing test
  \<open>event.message.startswith(nick) and event.message[len(nick)] in ':, '\<close>.
  \<open>parse_command\<close> strips the address, runs the \<open>try\<close> around
  \<open>message.split(None, 1)\<close> (whose unpacking into two names raises ValueError unless
  the list has two items) and \<open>command_name.rpartition('.')\<close>; it gives the plugin
  name, the command name and the argument string. \<open>make_command\<close> is the call
  \<open>CommandMessage(event.source, event.target, event.message, command_name, argstr,
  client=event.client, raw=event.raw_message)\<close>, whose arguments are evaluated from left
  to right before the constructor runs.
\<close>

definition is_command_of :: "event \<Rightarrow> error + bool" where
  "is_command_of ev =
     (case message ev of
        Inl e \<Rightarrow> Inl e
      | Inr msg \<Rightarrow>
          if startswith msg (nick ev)
          then (case char_at msg (length (nick ev)) of
                  Inl e \<Rightarrow> Inl e
                | Inr c \<Rightarrow> Inr (c \<in> {CHR '':'', CHR '','', CHR '' ''}))
          else Inr False)"

definition split_command :: "string \<Rightarrow> string \<times> string" where
  "split_command msg =
     (case split1 msg of
        [cname, astr] \<Rightarrow> (cname, astr)
      | _ \<Rightarrow> (strip msg, []))"

definition parse_command :: "string \<Rightarrow> string \<Rightarrow> bool \<Rightarrow> string \<times> string \<times> string" where
  "parse_command msg client_nick is_command =
     (case split_command (if is_command then drop (length client_nick + 1) msg else msg) of
        (cname, astr) \<Rightarrow>
          (case rpartition cname of
             (plugin_name, sep, cname') \<Rightarrow> (plugin_name, cname', astr)))"

definition make_command :: "event \<Rightarrow> string \<Rightarrow> string \<Rightarrow> error + event" where
  "make_command ev cname astr =
     (case getattr_source ev of
        Inl e \<Rightarrow> Inl e
      | Inr src \<Rightarrow>
          (case getattr_target ev of
             Inl e \<Rightarrow> Inl e
           | Inr tgt \<Rightarrow>
               (case message ev of
                  Inl e \<Rightarrow> Inl e
                | Inr msg \<Rightarrow>
                    CommandMessage_init src tgt msg cname astr (nick ev) (raw_args ev))))"

text \<open>
  \<open>PluginManager.fire\<close>. The first component lists the tasks handed to the event
  loop, in order; the second is the exception that ends the call, if any. When there is
  none, the first component is also the list of futures that the call returns.
\<close>

definition PluginManager_fire :: "PluginManager \<Rightarrow> event \<Rightarrow> task list \<times> error option" where
  "PluginManager_fire self ev =
     (let futures = PluginManager__fire self ev in
      if isinstance ev Message then
        (case channel ev of
           Inl e \<Rightarrow> (futures, Some e)
         | Inr ch \<Rightarrow>
             let is_public = truthy ch in
             (case is_command_of ev of
                Inl e \<Rightarrow> (futures, Some e)
              | Inr is_command \<Rightarrow>
                  if is_command \<or> \<not> is_public then
                    (case message ev of
                       Inl e \<Rightarrow> (futures, Some e)
                     | Inr msg \<Rightarrow>
                         (case parse_command msg (nick ev) is_command of
                            (plugin_name, cname, astr) \<Rightarrow>
                              (case make_command ev cname astr of
                                 Inl e \<Rightarrow> (futures, Some e)
                               | Inr command_event \<Rightarrow>
                                   if plugin_name \<noteq> [] then
                                     (case PluginManager__fire_plugin_command self plugin_name
                                             command_event of
                                        Inl e \<Rightarrow> (futures, Some e)
                                      | Inr fs \<Rightarrow> (futures @ fs, None))
                                   else
                                     (futures @
                                      PluginManager__fire_global_command self command_event,
                                      None))))
                  else (futures @ PluginManager__fire self ev, None)))
      else (futures, None))"

section \<open>PluginDataWrapper\<close>

text \<open>
  The view's methods act on the \<open>PluginData\<close> object that the manager keeps for the
  view's plugin. \<open>per_channel\<close> may call the slot class: the state it acts on is the
  manager together with the number of objects that exist. When the call raises,
  nothing is stored.
\<close>

definition PluginDataWrapper_per_channel ::
  "PluginDataWrapper \<Rightarrow> slot_class \<Rightarrow> PluginManager \<times> nat
     \<Rightarrow> (error + nat) \<times> PluginManager \<times> nat" where
  "PluginDataWrapper_per_channel self c s =
     (case s of (m, h) \<Rightarrow>
        (case channel (data_event self) of
           Inl e \<Rightarrow> (Inl e, s)
         | Inr ch \<Rightarrow>
             let pd = plugin_data m (data_plugin self);
                 d = per_channel pd
             in (case d ch c of
                   Some a \<Rightarrow> (Inr a, s)
                 | None \<Rightarrow>
                     (case slot_call c ch h of
                        (Inl e, h') \<Rightarrow> (Inl e, m, h')
                      | (Inr a, h') \<Rightarrow>
                          (Inr a,
                           m\<lparr>plugin_data := (plugin_data m)
                               (data_plugin self := pd\<lparr>per_channel := d(ch := (d ch)(c \<mapsto> a))\<rparr>)\<rparr>,
                           h')))))"

definition PluginDataWrapper_getitem ::
  "PluginDataWrapper \<Rightarrow> string \<Rightarrow> PluginManager \<Rightarrow> error + string" where
  "PluginDataWrapper_getitem self k m =
     (case general (plugin_data m (data_plugin self)) of
        None \<Rightarrow> Inl AttributeError
      | Some g \<Rightarrow> (case g k of None \<Rightarrow> Inl KeyError | Some v \<Rightarrow> Inr v))"

definition PluginDataWrapper_setitem ::
  "PluginDataWrapper \<Rightarrow> string \<Rightarrow> string \<Rightarrow> PluginManager \<Rightarrow> error + PluginManager" where
  "PluginDataWrapper_setitem self k v m =
     (let pd = plugin_data m (data_plugin self) in
      case general pd of
        None \<Rightarrow> Inl AttributeError
      | Some g \<Rightarrow>
          Inr (m\<lparr>plugin_data := (plugin_data m)
                 (data_plugin self := pd\<lparr>general := Some (g(k \<mapsto> v))\<rparr>)\<rparr>))"

text \<open>\<open>__delitem__\<close> runs \<open>del self._plugin_data.general\<close>: it deletes the attribute.\<close>

definition PluginDataWrapper_delitem ::
  "PluginDataWrapper \<Rightarrow> string \<Rightarrow> PluginManager \<Rightarrow> error + PluginManager" where
  "PluginDataWrapper_delitem self k m =
     (let pd = plugin_data m (data_plugin self) in
      case general pd of
        None \<Rightarrow> Inl AttributeError
      | Some g \<Rightarrow>
          Inr (m\<lparr>plugin_data := (plugin_data m)(data_plugin self := pd\<lparr>general := None\<rparr>)\<rparr>))"

section \<open>Slot classes and the invariant of the plugin data\<close>

text \<open>
  An \<open>ordinary_class\<close> is a callable whose every call makes one new object and
  returns it. A callable is \<open>well_behaved\<close> when the object it returns exists after
  the call and no object disappears. \<open>slot m p ch T\<close> is the object stored for plugin
  \<open>p\<close>, channel \<open>ch\<close> and slot class \<open>T\<close>. A state is \<open>isolated\<close> when every stored
  object exists and the objects stored for an ordinary class under different keys
  differ. The \<open>reachable\<close> states are those that the methods of the data views produce,
  with well-behaved slot classes, from a manager whose plugins all have fresh
  \<open>PluginData\<close>.
\<close>

definition ordinary_class :: "slot_class \<Rightarrow> bool" where
  "ordinary_class T = (\<forall>ch h. slot_call T ch h = (Inr h, Suc h))"

definition well_behaved :: "slot_class \<Rightarrow> bool" where
  "well_behaved T =
     (\<forall>ch h. h \<le> snd (slot_call T ch h) \<and>
        (case fst (slot_call T ch h) of Inl e \<Rightarrow> True | Inr a \<Rightarrow> a < snd (slot_call T ch h)))"

definition slot :: "PluginManager \<Rightarrow> string \<Rightarrow> string \<Rightarrow> slot_class \<Rightarrow> nat option" where
  "slot m p ch c = per_channel (plugin_data m p) ch c"

definition isolated :: "PluginManager \<times> nat \<Rightarrow> bool" where
  "isolated s =
     ((\<forall>p ch c a. slot (fst s) p ch c = Some a \<longrightarrow> a < snd s) \<and>
      (\<forall>c p ch p' ch' a. ordinary_class c \<and> slot (fst s) p ch c = Some a \<and>
         slot (fst s) p' ch' c = Some a \<longrightarrow> p' = p \<and> ch' = ch))"

inductive reachable :: "PluginManager \<times> nat \<Rightarrow> bool" where
  init: "plugin_data m = (\<lambda>_. PluginData_init) \<Longrightarrow> reachable (m, h)"
| per_channel: "reachable s \<Longrightarrow> well_behaved c \<Longrightarrow>
     PluginDataWrapper_per_channel w c s = (r, s') \<Longrightarrow> reachable s'"
| setitem: "reachable (m, h) \<Longrightarrow> PluginDataWrapper_setitem w k v m = Inr m' \<Longrightarrow> reachable (m', h)"
| delitem: "reachable (m, h) \<Longrightarrow> PluginDataWrapper_delitem w k m = Inr m' \<Longrightarrow> reachable (m', h)"

section \<open>Example objects\<close>

text \<open>
  The plugin \<open>echo\<close> of dywypi/plugins/echo.py with its global command \<open>echo\<close>, and
  a local-only command \<open>shout\<close>; a second plugin with a global \<open>shout\<close>; a manager
  that has loaded both. The messages are built as tests/plugins/echo_test.py builds
  its message, for a client whose nickname is \<open>dywypi\<close>: a private message has the
  bot's nickname as its first argument, a public one the channel \<open>#chan\<close>. \<open>Notice\<close>
  and \<open>Action\<close> are classes defined outside the two modules, \<open>Notice\<close> a subclass of
  \<open>Message\<close> and \<open>Action\<close> a subclass of \<open>Notice\<close>. \<open>bool_class\<close> is the builtin
  \<open>bool\<close> used as a slot class, with \<open>False\<close> at address 0 and \<open>True\<close> at address 1;
  \<open>Counter_class\<close> is an ordinary class.
\<close>

definition echo_plugin :: Plugin where
  "echo_plugin =
     Plugin_command (Plugin_command (Plugin_init ''echo'') ''echo'' True 1) ''shout'' False 2"

definition loud_plugin :: Plugin where
  "loud_plugin = Plugin_command (Plugin_init ''loud'') ''shout'' True 3"

definition example_manager :: PluginManager where
  "example_manager =
     PluginManager_init\<lparr>loaded_plugins := [(''echo'', echo_plugin), (''loud'', loud_plugin)]\<rparr>"

definition private_message :: "string \<Rightarrow> event" where
  "private_message body = Event_init Message_class ''dywypi'' [''dywypi'', body]"

definition public_message :: "string \<Rightarrow> event" where
  "public_message body = Event_init Message_class ''dywypi'' [''#chan'', body]"

text \<open>
  An object with the attributes of a command event, as \<open>Plugin.fire_command\<close> and a
  command handler read them.
\<close>

definition shout_event :: event where
  "shout_event =
     (public_message ''dywypi: echo.shout hi'')\<lparr>etype := CommandMessage_class,
        command_name := ''shout'', argstr := ''hi'', args := [''hi'']\<rparr>"

definition Notice_class :: pyclass where
  "Notice_class = Class (Other ''Notice'') [Message, Event, Object]"

definition Action_class :: pyclass where
  "Action_class = Class (Other ''Action'') [Other ''Notice'', Message, Event, Object]"

definition bool_class :: slot_class where
  "bool_class = \<lparr>slot_name = ''bool'', slot_call = (\<lambda>ch h. (Inr (if ch = [] then 0 else 1), h))\<rparr>"

definition Counter_class :: slot_class where
  "Counter_class = \<lparr>slot_name = ''Counter'', slot_call = (\<lambda>ch h. (Inr h, Suc h))\<rparr>"

section \<open>Properties\<close>

lemmas class_defs = Event_class_def Message_class_def CommandMessage_class_def
  DummyEvent_class_def Load_class_def Notice_class_def Action_class_def

lemmas example_defs = echo_plugin_def loud_plugin_def example_manager_def private_message_def
  public_message_def shout_event_def Event_init_def Plugin_init_def Plugin_command_def
  PluginManager_init_def PluginData_init_def bool_class_def Counter_class_def

lemmas fire_defs = PluginManager_fire_def PluginManager__fire_def PluginManager__fire_on_def
  PluginManager__fire_global_command_def PluginManager__fire_plugin_command_def
  PluginManager__wrap_event_def Plugin_fire_def Plugin_fire_command_def
  isinstance_def issubclass_def truthy_def channel_def message_def is_command_of_def
  startswith_def char_at_def parse_command_def make_command_def getattr_source_def
  getattr_target_def CommandMessage_init_def Event_init_accepts_def split_command_def
  split1_def isspace_def strip_def rpartition_def split_all_def

subsection \<open>Plugin data\<close>

lemma ordinary_well_behaved: "ordinary_class T \<Longrightarrow> well_behaved T"
  by (simp add: ordinary_class_def well_behaved_def)

lemma per_channel_no_channel:
  assumes "PluginDataWrapper_per_channel w c (m, h) = (r, (m', h'))"
    and "channel (data_event w) = Inl e"
  shows "r = Inl e \<and> m' = m \<and> h' = h"
  using assms by (simp add: PluginDataWrapper_per_channel_def)

lemma per_channel_stored:
  assumes "PluginDataWrapper_per_channel w c (m, h) = (r, (m', h'))"
    and "channel (data_event w) = Inr ch"
    and "slot m (data_plugin w) ch c = Some a"
  shows "r = Inr a \<and> m' = m \<and> h' = h"
  using assms by (simp add: PluginDataWrapper_per_channel_def slot_def Let_def)

lemma per_channel_called:
  assumes "PluginDataWrapper_per_channel w c (m, h) = (r, (m', h'))"
    and "channel (data_event w) = Inr ch"
    and "slot m (data_plugin w) ch c = None"
  shows "r = fst (slot_call c ch h) \<and> h' = snd (slot_call c ch h) \<and>
         (\<forall>p ch' c'. slot m' p ch' c' =
            (case r of
               Inl e \<Rightarrow> slot m p ch' c'
             | Inr a \<Rightarrow> if p = data_plugin w \<and> ch' = ch \<and> c' = c then Some a
                         else slot m p ch' c'))"
  using assms
  by (cases "slot_call c ch h")
     (auto simp: PluginDataWrapper_per_channel_def slot_def Let_def split: sum.splits)

lemma isolated_per_channel:
  assumes iso: "isolated s" and wb: "well_behaved c"
    and step: "PluginDataWrapper_per_channel w c s = (r, s')"
  shows "isolated s'"
proof -
  obtain m h m' h' where s: "s = (m, h)" and s': "s' = (m', h')"
    by (cases s, cases s') auto
  note call = step [unfolded s s']
  from iso have iso': "(\<forall>p ch c a. slot m p ch c = Some a \<longrightarrow> a < h) \<and>
      (\<forall>c p ch p' ch' a. ordinary_class c \<and> slot m p ch c = Some a \<and>
         slot m p' ch' c = Some a \<longrightarrow> p' = p \<and> ch' = ch)"
    unfolding isolated_def s fst_conv snd_conv .
  have bound: "\<And>p ch c a. slot m p ch c = Some a \<Longrightarrow> a < h"
    using iso' by blast
  have inj: "\<And>c p ch p' ch' a. ordinary_class c \<Longrightarrow> slot m p ch c = Some a \<Longrightarrow>
        slot m p' ch' c = Some a \<Longrightarrow> p' = p \<and> ch' = ch"
    using iso' by blast
  show ?thesis
  proof (cases "channel (data_event w)")
    case (Inl e)
    then show ?thesis using per_channel_no_channel [OF call] iso s s' by simp
  next
    case (Inr ch)
    show ?thesis
    proof (cases "slot m (data_plugin w) ch c")
      case (Some a)
      then show ?thesis using per_channel_stored [OF call Inr] iso s s' by simp
    next
      case None
      note res = per_channel_called [OF call Inr None]
      from wb have mono: "h \<le> h'"
        and fresh: "\<And>a. r = Inr a \<Longrightarrow> a < h'"
        using res unfolding well_behaved_def
        by (auto split: sum.splits dest: spec [of _ ch] spec [of _ h])
      show ?thesis
      proof (cases r)
        case (Inl e)
        then have "\<And>p ch' c'. slot m' p ch' c' = slot m p ch' c'" using res by simp
        then show ?thesis using bound inj mono unfolding isolated_def s' by fastforce
      next
        case r: (Inr a)
        have slot': "\<And>p ch' c'. slot m' p ch' c' =
            (if p = data_plugin w \<and> ch' = ch \<and> c' = c then Some a else slot m p ch' c')"
          using res r by simp
        have b: "a' < h'" if st: "slot m' p ch' c' = Some a'" for p ch' c' a'
        proof (cases "p = data_plugin w \<and> ch' = ch \<and> c' = c")
          case True
          then have "a' = a" using st slot' by simp
          then show ?thesis using fresh [OF r] by simp
        next
          case False
          then have "slot m p ch' c' = Some a'" using st slot' by (auto split: if_splits)
          then have "a' < h" using bound by blast
          then show ?thesis using mono by simp
        qed
        have i: "p' = p \<and> ch2 = ch1"
          if o: "ordinary_class c0" and k1: "slot m' p ch1 c0 = Some a'"
            and k2: "slot m' p' ch2 c0 = Some a'" for c0 p ch1 p' ch2 a'
        proof (cases "c0 = c")
          case False
          then show ?thesis using k1 k2 slot' inj [OF o] by (auto split: if_splits)
        next
          case True
          then have "slot_call c ch h = (Inr h, Suc h)" using o by (simp add: ordinary_class_def)
          then have ah: "a = h" using res r by simp
          show ?thesis
          proof (cases "p = data_plugin w \<and> ch1 = ch")
            case key1: True
            show ?thesis
            proof (cases "p' = data_plugin w \<and> ch2 = ch")
              case True then show ?thesis using key1 by simp
            next
              case False
              then have "slot m p' ch2 c0 = Some a'" using k2 slot' by (auto split: if_splits)
              moreover have "a' = h" using key1 k1 slot' True ah by simp
              ultimately show ?thesis using bound by blast
            qed
          next
            case nokey1: False
            then have o1: "slot m p ch1 c0 = Some a'" using k1 slot' by (auto split: if_splits)
            show ?thesis
            proof (cases "p' = data_plugin w \<and> ch2 = ch")
              case True
              then have "a' = h" using k2 slot' \<open>c0 = c\<close> ah by simp
              then show ?thesis using o1 bound by blast
            next
              case False
              then have "slot m p' ch2 c0 = Some a'" using k2 slot' by (auto split: if_splits)
              then show ?thesis using inj [OF o o1] by simp
            qed
          qed
        qed
        show ?thesis unfolding isolated_def s' using b i by auto
      qed
    qed
  qed
qed

lemma slot_setitem:
  "PluginDataWrapper_setitem w k v m = Inr m' \<Longrightarrow> slot m' p ch c = slot m p ch c"
  by (auto simp: PluginDataWrapper_setitem_def slot_def Let_def split: option.splits)

lemma slot_delitem:
  "PluginDataWrapper_delitem w k m = Inr m' \<Longrightarrow> slot m' p ch c = slot m p ch c"
  by (auto simp: PluginDataWrapper_delitem_def slot_def Let_def split: option.splits)

lemma reachable_isolated: "reachable s \<Longrightarrow> isolated s"
proof (induction rule: reachable.induct)
  case (init m h)
  then show ?case by (simp add: isolated_def slot_def PluginData_init_def)
next
  case (per_channel s c w r s')
  then show ?case using isolated_per_channel by blast
next
  case (setitem m h w k v m')
  then show ?case by (simp add: isolated_def slot_setitem)
next
  case (delitem m h w k m')
  then show ?case by (simp add: isolated_def slot_delitem)
qed

lemma general_setitem_other:
  assumes "PluginDataWrapper_setitem w k v m = Inr m'" and "data_plugin w' \<noteq> data_plugin w"
  shows "PluginDataWrapper_getitem w' k' m' = PluginDataWrapper_getitem w' k' m"
  using assms
  by (auto simp: PluginDataWrapper_setitem_def PluginDataWrapper_getitem_def Let_def
      split: option.splits)

lemma general_delitem_other:
  assumes "PluginDataWrapper_delitem w k m = Inr m'" and "data_plugin w' \<noteq> data_plugin w"
  shows "PluginDataWrapper_getitem w' k' m' = PluginDataWrapper_getitem w' k' m"
  using assms
  by (auto simp: PluginDataWrapper_delitem_def PluginDataWrapper_getitem_def Let_def
      split: option.splits)

lemma per_channel_ordinary:
  assumes call: "PluginDataWrapper_per_channel w T (m, h) = (r, (m', h'))"
    and ch: "channel (data_event w) = Inr ch" and ord: "ordinary_class T"
  shows "\<exists>a. r = Inr a \<and> slot m' (data_plugin w) ch T = Some a \<and>
           (\<forall>p ch' c' b. slot m p ch' c' = Some b \<longrightarrow> slot m' p ch' c' = Some b)"
proof (cases "slot m (data_plugin w) ch T")
  case (Some a)
  then show ?thesis using per_channel_stored [OF call ch] by simp
next
  case None
  have "slot_call T ch h = (Inr h, Suc h)" using ord by (simp add: ordinary_class_def)
  then show ?thesis using per_channel_called [OF call ch None] None by auto
qed

text \<open>
  C7 (per-channel plugin data isolation), for a slot class \<open>T\<close> whose every call makes
  a new object. In every reachable state, take two successive calls of
  \<open>data.per_channel(T)\<close>, made through the views that \<open>_wrap_event\<close> binds for the
  plugins \<open>p1\<close> and \<open>p2\<close> on events with the channels \<open>c1\<close> and \<open>c2\<close>. When the
  plugins differ or the channels differ, both calls return an object and the two objects
  differ. When the plugins differ, a write or a deletion made through the view of
  \<open>p1\<close> changes no read made through the view of \<open>p2\<close>.
\<close>

theorem C7_plugin_data_isolation:
  assumes reach: "reachable s" and ord: "ordinary_class T"
    and ch1: "channel ev1 = Inr c1" and ch2: "channel ev2 = Inr c2"
    and call1: "PluginDataWrapper_per_channel
                  (wrapped_data (PluginManager__wrap_event (fst s) ev1 p1)) T s = (r1, s1)"
    and call2: "PluginDataWrapper_per_channel
                  (wrapped_data (PluginManager__wrap_event (fst s1) ev2 p2)) T s1 = (r2, s2)"
    and diff: "name p1 \<noteq> name p2 \<or> c1 \<noteq> c2"
  shows "(\<exists>a1 a2. r1 = Inr a1 \<and> r2 = Inr a2 \<and> a1 \<noteq> a2) \<and>
         (name p1 \<noteq> name p2 \<longrightarrow>
            (\<forall>k v k' m'.
               PluginDataWrapper_setitem
                 (wrapped_data (PluginManager__wrap_event (fst s) ev1 p1)) k v (fst s) = Inr m' \<or>
               PluginDataWrapper_delitem
                 (wrapped_data (PluginManager__wrap_event (fst s) ev1 p1)) k (fst s) = Inr m' \<longrightarrow>
               PluginDataWrapper_getitem
                 (wrapped_data (PluginManager__wrap_event m' ev2 p2)) k' m' =
               PluginDataWrapper_getitem
                 (wrapped_data (PluginManager__wrap_event (fst s) ev2 p2)) k' (fst s)))"
proof (rule conjI)
  obtain m h where s: "s = (m, h)" by (cases s)
  obtain m1 h1 where s1: "s1 = (m1, h1)" by (cases s1)
  obtain m2 h2 where s2: "s2 = (m2, h2)" by (cases s2)
  let ?w1 = "wrapped_data (PluginManager__wrap_event (fst s) ev1 p1)"
  let ?w2 = "wrapped_data (PluginManager__wrap_event (fst s1) ev2 p2)"
  have w1: "data_plugin ?w1 = name p1" "channel (data_event ?w1) = Inr c1"
    and w2: "data_plugin ?w2 = name p2" "channel (data_event ?w2) = Inr c2"
    using ch1 ch2 by (simp_all add: PluginManager__wrap_event_def)
  from per_channel_ordinary [OF call1 [unfolded s s1] w1(2) [unfolded s] ord] w1(1)
  obtain a1 where a1: "r1 = Inr a1" "slot m1 (name p1) c1 T = Some a1" unfolding s by auto
  from per_channel_ordinary [OF call2 [unfolded s1 s2] w2(2) [unfolded s1] ord] w2(1)
  obtain a2 where a2: "r2 = Inr a2" "slot m2 (name p2) c2 T = Some a2"
    and keep: "\<forall>p ch' c' b. slot m1 p ch' c' = Some b \<longrightarrow> slot m2 p ch' c' = Some b"
    unfolding s1 by auto
  have k1: "slot m2 (name p1) c1 T = Some a1" using keep a1(2) by blast
  have "reachable s2"
    using reach call1 call2 ordinary_well_behaved [OF ord] reachable.per_channel by blast
  then have "isolated (m2, h2)" using reachable_isolated s2 by blast
  then have "a1 \<noteq> a2" using ord k1 a2(2) diff unfolding isolated_def by fastforce
  then show "\<exists>a1 a2. r1 = Inr a1 \<and> r2 = Inr a2 \<and> a1 \<noteq> a2" using a1(1) a2(1) by simp
next
  show "name p1 \<noteq> name p2 \<longrightarrow>
            (\<forall>k v k' m'.
               PluginDataWrapper_setitem
                 (wrapped_data (PluginManager__wrap_event (fst s) ev1 p1)) k v (fst s) = Inr m' \<or>
               PluginDataWrapper_delitem
                 (wrapped_data (PluginManager__wrap_event (fst s) ev1 p1)) k (fst s) = Inr m' \<longrightarrow>
               PluginDataWrapper_getitem
                 (wrapped_data (PluginManager__wrap_event m' ev2 p2)) k' m' =
               PluginDataWrapper_getitem
                 (wrapped_data (PluginManager__wrap_event (fst s) ev2 p2)) k' (fst s))"
  proof (intro impI allI)
    fix k v k' m'
    assume n: "name p1 \<noteq> name p2"
      and w: "PluginDataWrapper_setitem
                 (wrapped_data (PluginManager__wrap_event (fst s) ev1 p1)) k v (fst s) = Inr m' \<or>
               PluginDataWrapper_delitem
                 (wrapped_data (PluginManager__wrap_event (fst s) ev1 p1)) k (fst s) = Inr m'"
    have d: "data_plugin (wrapped_data (PluginManager__wrap_event m' ev2 p2)) \<noteq>
        data_plugin (wrapped_data (PluginManager__wrap_event (fst s) ev1 p1))"
      using n by (simp add: PluginManager__wrap_event_def)
    have e: "wrapped_data (PluginManager__wrap_event (fst s) ev2 p2) =
        wrapped_data (PluginManager__wrap_event m' ev2 p2)"
      by (simp add: PluginManager__wrap_event_def)
    from w show "PluginDataWrapper_getitem
                 (wrapped_data (PluginManager__wrap_event m' ev2 p2)) k' m' =
               PluginDataWrapper_getitem
                 (wrapped_data (PluginManager__wrap_event (fst s) ev2 p2)) k' (fst s)"
      unfolding e using general_setitem_other [OF _ d] general_delitem_other [OF _ d] by blast
  qed
qed

theorem C7_plugin_data_isolation_witness:
  "(\<exists>a1 a2.
      fst (PluginDataWrapper_per_channel
             (wrapped_data (PluginManager__wrap_event example_manager (public_message ''hi'') echo_plugin))
             Counter_class (example_manager, 2)) = Inr a1 \<and>
      fst (PluginDataWrapper_per_channel
             (wrapped_data (PluginManager__wrap_event
                (fst (snd (PluginDataWrapper_per_channel
                   (wrapped_data (PluginManager__wrap_event example_manager (public_message ''hi'') echo_plugin))
                   Counter_class (example_manager, 2))))
                (public_message ''hi'') loud_plugin))
             Counter_class
             (snd (PluginDataWrapper_per_channel
                (wrapped_data (PluginManager__wrap_event example_manager (public_message ''hi'') echo_plugin))
                Counter_class (example_manager, 2)))) = Inr a2 \<and>
      a1 \<noteq> a2) \<and>
   (\<exists>m'. PluginDataWrapper_setitem
           (wrapped_data (PluginManager__wrap_event example_manager (public_message ''hi'') echo_plugin))
           ''k'' ''v'' example_manager = Inr m' \<and>
         PluginDataWrapper_getitem
           (wrapped_data (PluginManager__wrap_event m' (public_message ''hi'') loud_plugin))
           ''k'' m' = Inl KeyError)"
proof -
  let ?ev = "public_message ''hi''"
  let ?s = "(example_manager, 2) :: PluginManager \<times> nat"
  let ?c1 = "PluginDataWrapper_per_channel
      (wrapped_data (PluginManager__wrap_event (fst ?s) ?ev echo_plugin)) Counter_class ?s"
  let ?c2 = "PluginDataWrapper_per_channel
      (wrapped_data (PluginManager__wrap_event (fst (snd ?c1)) ?ev loud_plugin)) Counter_class (snd ?c1)"
  have r: "reachable ?s"
    by (rule reachable.init) (simp add: example_manager_def PluginManager_init_def)
  have o: "ordinary_class Counter_class" by (simp add: ordinary_class_def Counter_class_def)
  have c: "channel ?ev = Inr ''#chan''"
    by (simp add: channel_def isinstance_def issubclass_def public_message_def Event_init_def
        Message_class_def)
  have d: "name echo_plugin \<noteq> name loud_plugin \<or> ''#chan'' \<noteq> ''#chan''"
    by (simp add: echo_plugin_def loud_plugin_def Plugin_command_def Plugin_init_def)
  have e1: "?c1 = (fst ?c1, snd ?c1)" by simp
  have e2: "?c2 = (fst ?c2, snd ?c2)" by simp
  note iso = C7_plugin_data_isolation [OF r o c c e1 e2 d]
  have n: "name echo_plugin \<noteq> name loud_plugin"
    by (simp add: echo_plugin_def loud_plugin_def Plugin_command_def Plugin_init_def)
  obtain m' where s: "PluginDataWrapper_setitem
      (wrapped_data (PluginManager__wrap_event example_manager ?ev echo_plugin))
      ''k'' ''v'' example_manager = Inr m'"
    by (simp add: PluginDataWrapper_setitem_def PluginManager__wrap_event_def example_defs)
  have "PluginDataWrapper_getitem
      (wrapped_data (PluginManager__wrap_event m' ?ev loud_plugin)) ''k'' m' =
      PluginDataWrapper_getitem
      (wrapped_data (PluginManager__wrap_event example_manager ?ev loud_plugin)) ''k'' example_manager"
    using iso s n by simp
  also have "\<dots> = Inl KeyError"
    by (simp add: PluginDataWrapper_getitem_def PluginManager__wrap_event_def example_defs)
  finally show ?thesis using iso s by simp
qed

text \<open>
  \<open>per_channel\<close> stores whatever the slot class returns. With the builtin \<open>bool\<close>
  as the slot class, one plugin gets the same object, \<open>True\<close>, for the two different
  channels \<open>#a\<close> and \<open>#b\<close>.
\<close>

theorem C7_bool_slot_counterexample:
  "fst (PluginDataWrapper_per_channel
          (wrapped_data (PluginManager__wrap_event example_manager
             (Event_init Message_class ''dywypi'' [''#a'', ''hi'']) echo_plugin))
          bool_class (example_manager, 2)) = Inr 1 \<and>
   fst (PluginDataWrapper_per_channel
          (wrapped_data (PluginManager__wrap_event example_manager
             (Event_init Message_class ''dywypi'' [''#b'', ''hi'']) echo_plugin))
          bool_class
          (snd (PluginDataWrapper_per_channel
             (wrapped_data (PluginManager__wrap_event example_manager
                (Event_init Message_class ''dywypi'' [''#a'', ''hi'']) echo_plugin))
             bool_class (example_manager, 2)))) = Inr 1"
  by (simp add: PluginDataWrapper_per_channel_def PluginManager__wrap_event_def channel_def
      isinstance_def issubclass_def Message_class_def example_defs Let_def)

text \<open>
  C8 (deleting a key deletes the mapping). As long as the plugin still has its general
  mapping, \<open>del data[k]\<close> succeeds for every key \<open>k\<close>, bound or not, and leaves the
  plugin without the mapping: every later read through the view, of any key, raises
  AttributeError, so no binding survives.
\<close>

theorem C8_delitem_deletes_whole_mapping:
  assumes "general (plugin_data m (data_plugin self)) = Some g"
  shows "\<exists>m'. PluginDataWrapper_delitem self k m = Inr m' \<and>
           general (plugin_data m' (data_plugin self)) = None \<and>
           (\<forall>k'. PluginDataWrapper_getitem self k' m' = Inl AttributeError)"
  using assms by (simp add: PluginDataWrapper_delitem_def PluginDataWrapper_getitem_def)

theorem C8_delitem_deletes_whole_mapping_witness:
  "\<exists>m1 m2.
     PluginDataWrapper_setitem \<lparr>data_plugin = ''echo'', data_event = public_message ''hi''\<rparr>
       ''kept'' ''v'' PluginManager_init = Inr m1 \<and>
     PluginDataWrapper_getitem \<lparr>data_plugin = ''echo'', data_event = public_message ''hi''\<rparr>
       ''kept'' m1 = Inr ''v'' \<and>
     PluginDataWrapper_delitem \<lparr>data_plugin = ''echo'', data_event = public_message ''hi''\<rparr>
       ''other'' m1 = Inr m2 \<and>
     PluginDataWrapper_getitem \<lparr>data_plugin = ''echo'', data_event = public_message ''hi''\<rparr>
       ''kept'' m2 = Inl AttributeError"
proof -
  let ?w = "\<lparr>data_plugin = ''echo'', data_event = public_message ''hi''\<rparr>"
  define m1 where "m1 = PluginManager_init\<lparr>plugin_data := (plugin_data PluginManager_init)
      (''echo'' := PluginData_init\<lparr>general := Some [''kept'' \<mapsto> ''v'']\<rparr>)\<rparr>"
  have s: "PluginDataWrapper_setitem ?w ''kept'' ''v'' PluginManager_init = Inr m1"
    by (simp add: PluginDataWrapper_setitem_def PluginManager_init_def PluginData_init_def m1_def)
  have g: "PluginDataWrapper_getitem ?w ''kept'' m1 = Inr ''v''"
    by (simp add: PluginDataWrapper_getitem_def m1_def)
  have h: "general (plugin_data m1 (data_plugin ?w)) = Some [''kept'' \<mapsto> ''v'']"
    by (simp add: m1_def)
  from C8_delitem_deletes_whole_mapping [OF h, of "''other''"] s g show ?thesis by blast
qed

subsection \<open>Listeners and commands of one plugin\<close>

text \<open>
  C10 (listener on the root class). \<open>Plugin.on(Event)\<close> raises nothing and returns the
  plugin as it was: the handler is recorded under no class. A plugin whose only
  registration is this one schedules nothing, whatever event is fired.
\<close>

theorem C10_listener_on_root_Event_is_never_scheduled:
  "Plugin_on self Event_class f = Inr self \<and>
   (\<exists>p. Plugin_on (Plugin_init n) Event_class f = Inr p \<and> (\<forall>w. Plugin_fire p w = []))"
  by (simp add: Plugin_on_def issubclass_def Event_class_def Plugin_fire_def Plugin_init_def)

text \<open>
  C5 (local-only commands). For a command \<open>c\<close> registered under the name that the
  event carries, \<open>fire_command\<close> with \<open>is_global=False\<close> schedules its handler; with
  \<open>is_global=True\<close> it schedules the handler when \<open>c\<close> is global and nothing when
  \<open>c\<close> is local-only.
\<close>

theorem C5_local_only_command:
  assumes "commands self (command_name (wrapped_event w)) = Some c"
  shows "Plugin_fire_command self w False = [Task (coro_of c) w] \<and>
         Plugin_fire_command self w True = (if is_global_of c then [Task (coro_of c) w] else [])"
  using assms by (simp add: Plugin_fire_command_def)

theorem C5_local_only_command_witness:
  "Plugin_fire_command (Plugin_command (Plugin_init ''echo'') ''shout'' False 3)
     (PluginManager__wrap_event PluginManager_init shout_event (Plugin_init ''echo'')) True = [] \<and>
   map task_coro (Plugin_fire_command (Plugin_command (Plugin_init ''echo'') ''shout'' False 3)
     (PluginManager__wrap_event PluginManager_init shout_event (Plugin_init ''echo'')) False) = [3]"
proof -
  let ?p = "Plugin_command (Plugin_init ''echo'') ''shout'' False 3"
  let ?w = "PluginManager__wrap_event PluginManager_init shout_event (Plugin_init ''echo'')"
  have h: "commands ?p (command_name (wrapped_event ?w)) = Some \<lparr>coro_of = 3, is_global_of = False\<rparr>"
    by (simp add: Plugin_command_def PluginManager__wrap_event_def shout_event_def)
  from C5_local_only_command [OF h] show ?thesis by simp
qed

lemma listeners_on_loop:
  "listeners (on_loop p cs f) c =
     listeners p c @ replicate (count_list (takeWhile (\<lambda>x. x \<noteq> Event) cs) c) f"
  by (induction cs arbitrary: p) (auto simp: replicate_append_same)

lemma count_list_distinct: "distinct xs \<Longrightarrow> count_list xs x = (if x \<in> set xs then 1 else 0)"
  by (induction xs) auto

lemma listeners_on_loop_distinct:
  assumes "distinct cs"
  shows "listeners (on_loop p cs f) c =
     (if c \<in> set (takeWhile (\<lambda>x. x \<noteq> Event) cs) then listeners p c @ [f] else listeners p c)"
  using distinct_takeWhile [OF assms, of "\<lambda>x. x \<noteq> Event"]
  by (simp add: listeners_on_loop count_list_distinct)

text \<open>
  C1 (direction of the propagation along the class chain), as the code has it, for any
  two classes given by their method resolution orders. Let \<open>V\<close> be a subclass of
  \<open>Event\<close> whose MRO lists each class once, and let \<open>S\<close> be a subclass of \<open>Event\<close>
  that stands before \<open>Event\<close> in the MRO of \<open>V\<close> (so \<open>V\<close> is a subclass of \<open>S\<close>,
  and \<open>S\<close> is below the root) and that is not itself a subclass of \<open>V\<close>. A handler
  registered with \<open>on(V)\<close> is recorded under \<open>S\<close> too: firing an event whose exact
  class is \<open>S\<close> schedules it, after the listeners that were already there. A handler
  registered with \<open>on(S)\<close> is not recorded under \<open>V\<close>: firing an event whose exact
  class is \<open>V\<close> schedules what it scheduled before the registration.
\<close>

theorem C1_registration_reaches_ancestors_only:
  assumes "distinct (mro V)"
    and "class_id S \<in> set (takeWhile (\<lambda>c. c \<noteq> Event) (mro V))"
    and "issubclass V Event" and "issubclass S Event"
    and "class_id V \<notin> set (mro S)"
  shows "(\<exists>p'. Plugin_on p V f = Inr p' \<and>
            (\<forall>w. class_id (wrapped_type w) = class_id S \<longrightarrow>
               Plugin_fire p' w = Plugin_fire p w @ [Task f w])) \<and>
         (\<exists>p'. Plugin_on p S f = Inr p' \<and>
            (\<forall>w. class_id (wrapped_type w) = class_id V \<longrightarrow>
               Plugin_fire p' w = Plugin_fire p w))"
proof -
  have v: "listeners (on_loop p (mro V) f) (class_id S) = listeners p (class_id S) @ [f]"
    using assms(1,2) by (simp add: listeners_on_loop_distinct)
  have "class_id V \<notin> set (takeWhile (\<lambda>c. c \<noteq> Event) (mro S))"
    using assms(5) set_takeWhileD by fastforce
  then have "count_list (takeWhile (\<lambda>c. c \<noteq> Event) (mro S)) (class_id V) = 0"
    by (simp add: count_list_0_iff)
  then have s: "listeners (on_loop p (mro S) f) (class_id V) = listeners p (class_id V)"
    by (simp add: listeners_on_loop)
  show ?thesis
    using assms(3,4) v s by (simp add: Plugin_on_def Plugin_fire_def)
qed

theorem C1_registration_reaches_ancestors_only_witness:
  "map task_coro (Plugin_fire (projr (Plugin_on (Plugin_init ''log'') Action_class 1))
      (PluginManager__wrap_event PluginManager_init (public_message ''hi'') (Plugin_init ''log''))) = [1] \<and>
   Plugin_fire (projr (Plugin_on (Plugin_init ''log'') Message_class 1))
      (PluginManager__wrap_event PluginManager_init
         (Event_init Action_class ''dywypi'' [''#chan'', ''hi'']) (Plugin_init ''log'')) = []"
proof -
  have a: "distinct (mro Action_class)"
    "class_id Message_class \<in> set (takeWhile (\<lambda>c. c \<noteq> Event) (mro Action_class))"
    "issubclass Action_class Event" "issubclass Message_class Event"
    "class_id Action_class \<notin> set (mro Message_class)"
    by (simp_all add: issubclass_def class_defs)
  let ?w = "PluginManager__wrap_event PluginManager_init (public_message ''hi'') (Plugin_init ''log'')"
  let ?c = "PluginManager__wrap_event PluginManager_init
         (Event_init Action_class ''dywypi'' [''#chan'', ''hi'']) (Plugin_init ''log'')"
  have t: "class_id (wrapped_type ?w) = class_id Message_class"
    "class_id (wrapped_type ?c) = class_id Action_class"
    by (simp_all add: PluginManager__wrap_event_def public_message_def Event_init_def)
  from C1_registration_reaches_ancestors_only [OF a, of "Plugin_init ''log''" 1]
  obtain p' q' where p: "Plugin_on (Plugin_init ''log'') Action_class 1 = Inr p'"
    and pf: "\<forall>w. class_id (wrapped_type w) = class_id Message_class \<longrightarrow>
           Plugin_fire p' w = Plugin_fire (Plugin_init ''log'') w @ [Task 1 w]"
    and q: "Plugin_on (Plugin_init ''log'') Message_class 1 = Inr q'"
    and qf: "\<forall>w. class_id (wrapped_type w) = class_id Action_class \<longrightarrow>
           Plugin_fire q' w = Plugin_fire (Plugin_init ''log'') w"
    by blast
  have n: "Plugin_fire (Plugin_init ''log'') w = []" for w
    by (simp add: Plugin_fire_def Plugin_init_def)
  have "Plugin_fire p' ?w = [Task 1 ?w]" using pf t(1) n by simp
  moreover have "Plugin_fire q' ?c = []" using qf t(2) n by simp
  ultimately show ?thesis unfolding p q by simp
qed

text \<open>
  The propagation law as C1 states it fails in both directions at \<open>S = Message\<close> and
  \<open>V = Notice\<close>, a subclass of \<open>Message\<close>: the handler registered on \<open>Message\<close> is
  not scheduled for a \<open>Notice\<close>, and the handler registered on \<open>Notice\<close> is scheduled
  for a \<open>Message\<close>.
\<close>

theorem C1_supertype_listener_counterexample:
  "Plugin_fire (projr (Plugin_on (Plugin_init ''log'') Message_class 1))
      (PluginManager__wrap_event PluginManager_init
         (Event_init Notice_class ''dywypi'' [''#chan'', ''hi'']) (Plugin_init ''log'')) = [] \<and>
   map task_coro (Plugin_fire (projr (Plugin_on (Plugin_init ''log'') Notice_class 1))
      (PluginManager__wrap_event PluginManager_init (public_message ''hi'') (Plugin_init ''log''))) = [1]"
  by (simp add: Plugin_on_def issubclass_def Plugin_fire_def PluginManager__wrap_event_def
      class_defs example_defs)

subsection \<open>PluginManager.fire\<close>

text \<open>
  C9 (message that is just the nickname). For a Message whose text equals the bot's
  nickname, \<open>PluginManager.fire\<close> raises IndexError from the addressing test, after
  the broadcast of the event to the listeners of all loaded plugins has been scheduled
  and nothing else.
\<close>

theorem C9_bare_nick_raises_IndexError:
  assumes "isinstance ev Message" and "message ev = Inr (nick ev)"
  shows "PluginManager_fire m ev = (PluginManager__fire m ev, Some IndexError)"
proof -
  from assms obtain c r where "raw_args ev = c # nick ev # r"
    by (auto simp: message_def split: list.splits)
  then have "channel ev = Inr c" using assms(1) by (simp add: channel_def)
  then show ?thesis
    using assms
    by (simp add: PluginManager_fire_def is_command_of_def startswith_def char_at_def)
qed

theorem C9_bare_nick_raises_IndexError_witness:
  "PluginManager_fire
     (PluginManager_init\<lparr>loaded_plugins :=
        [(''log'', (Plugin_init ''log'')\<lparr>listeners := (\<lambda>_. [])(Message := [5])\<rparr>)]\<rparr>)
     (public_message ''dywypi'') =
   ([Task 5 (PluginManager__wrap_event PluginManager_init (public_message ''dywypi'')
        (Plugin_init ''log''))], Some IndexError)"
proof -
  let ?ev = "public_message ''dywypi''"
  have m: "isinstance ?ev Message"
    by (simp add: isinstance_def issubclass_def public_message_def Event_init_def Message_class_def)
  have n: "message ?ev = Inr (nick ?ev)"
    by (simp add: message_def isinstance_def issubclass_def public_message_def Event_init_def
        Message_class_def)
  show ?thesis
    unfolding C9_bare_nick_raises_IndexError [OF m n]
    by (simp add: PluginManager__fire_def PluginManager__fire_on_def Plugin_fire_def
        PluginManager__wrap_event_def Plugin_init_def public_message_def Event_init_def
        Message_class_def)
qed

text \<open>
  C2 (exactly-once scheduling) at a public message that does not address the bot: the
  one listener registered for \<open>Message\<close> is scheduled twice, by the broadcast at the
  start of \<open>fire\<close> and again by the branch for regular public messages.
\<close>

theorem C2_public_message_scheduled_twice:
  "PluginManager_fire
     (PluginManager_init\<lparr>loaded_plugins :=
        [(''log'', projr (Plugin_on (Plugin_init ''log'') Message_class 5))]\<rparr>)
     (public_message ''hello'') =
   ([Task 5 (PluginManager__wrap_event PluginManager_init (public_message ''hello'')
        (Plugin_init ''log'')),
     Task 5 (PluginManager__wrap_event PluginManager_init (public_message ''hello'')
        (Plugin_init ''log''))],
    None)"
  by (simp add: fire_defs Plugin_on_def class_defs example_defs)

text \<open>
  The two branches of \<open>fire\<close> for a Message. A message that is neither addressed nor
  without a channel is broadcast a second time. For a message classified as a command,
  the \<open>CommandMessage\<close> is never built: reading \<open>event.source\<close> raises AttributeError
  on every object of event.py's classes, and the constructor itself raises TypeError.
\<close>

lemma CommandMessage_init_raises:
  "CommandMessage_init src tgt msg cname astr client_nick raw = Inl TypeError"
  by (simp add: CommandMessage_init_def Event_init_accepts_def)

lemma make_command_raises:
  "make_command ev cname astr = Inl AttributeError \<or> make_command ev cname astr = Inl TypeError \<or>
   make_command ev cname astr = Inl IndexError"
  by (auto simp: make_command_def getattr_source_def getattr_target_def message_def
      CommandMessage_init_raises split: option.splits sum.splits list.splits)

lemma fire_regular_public:
  assumes "isinstance ev Message" and "channel ev = Inr ch" and "truthy ch"
    and "is_command_of ev = Inr False"
  shows "PluginManager_fire m ev =
     (PluginManager__fire m ev @ PluginManager__fire m ev, None)"
  using assms by (simp add: PluginManager_fire_def)

lemma fire_command_branch:
  assumes "isinstance ev Message" and "channel ev = Inr ch" and "is_command_of ev = Inr a"
    and "a \<or> \<not> truthy ch" and "source ev = None"
  shows "PluginManager_fire m ev = (PluginManager__fire m ev, Some AttributeError)"
proof -
  from assms(3) obtain msg where "message ev = Inr msg"
    by (auto simp: is_command_of_def split: sum.splits)
  moreover have "make_command ev cname astr = Inl AttributeError" for cname astr
    using assms(5) by (simp add: make_command_def getattr_source_def)
  ultimately show ?thesis
    using assms(1-4) by (auto simp: PluginManager_fire_def split: prod.splits)
qed

text \<open>
  C3 (addressing idempotence) at its two messages, for the bot \<open>dywypi\<close>
  with the plugin \<open>echo\<close> loaded. The private message \<open>echo foo\<close> has the bot's
  nickname as its channel, which is true: it is not classified as a command, and no
  command handler is scheduled. The public message \<open>dywypi: echo foo\<close> is classified as
  a command and parsed into the command \<open>echo\<close> with the argument string \<open>foo\<close>, and
  \<open>fire\<close> then raises AttributeError before any command is fired.
\<close>

theorem C3_private_message_is_not_a_command:
  "channel (private_message ''echo foo'') = Inr ''dywypi'' \<and>
   is_command_of (private_message ''echo foo'') = Inr False \<and>
   PluginManager_fire example_manager (private_message ''echo foo'') = ([], None) \<and>
   is_command_of (public_message ''dywypi: echo foo'') = Inr True \<and>
   parse_command ''dywypi: echo foo'' ''dywypi'' True = ([], ''echo'', ''foo'') \<and>
   PluginManager_fire example_manager (public_message ''dywypi: echo foo'') =
     ([], Some AttributeError)"
  by (simp add: fire_defs class_defs example_defs)

text \<open>
  C4 (plugin-qualified routing) at the message \<open>dywypi: echo.shout hi\<close>, with the
  plugin \<open>echo\<close> loaded and its command \<open>shout\<close> registered. The command word is
  split at its last dot into the plugin name \<open>echo\<close> and the command \<open>shout\<close>, and
  \<open>fire\<close> then raises AttributeError: the command is fired on no plugin.
\<close>

theorem C4_qualified_command_is_never_fired:
  "map_of (loaded_plugins example_manager) ''echo'' = Some echo_plugin \<and>
   commands echo_plugin ''shout'' = Some \<lparr>coro_of = 2, is_global_of = False\<rparr> \<and>
   is_command_of (public_message ''dywypi: echo.shout hi'') = Inr True \<and>
   parse_command ''dywypi: echo.shout hi'' ''dywypi'' True = (''echo'', ''shout'', ''hi'') \<and>
   PluginManager_fire example_manager (public_message ''dywypi: echo.shout hi'') =
     ([], Some AttributeError)"
  by (simp add: fire_defs class_defs example_defs)

lemma fire_command_unknown:
  "commands p (command_name (wrapped_event w)) = None \<Longrightarrow> Plugin_fire_command p w g = []"
  by (simp add: Plugin_fire_command_def)

lemma fire_global_command_unknown:
  assumes "\<forall>p \<in> set (map snd (loaded_plugins m)). commands p (command_name cev) = None"
  shows "PluginManager__fire_global_command m cev = []"
  using assms
  by (simp add: PluginManager__fire_global_command_def Plugin_fire_command_def
      PluginManager__wrap_event_def)

text \<open>
  C6 (unresolved commands), for the functions that dispatch a command event. When the
  plugin does not know the command name, \<open>Plugin.fire_command\<close> schedules nothing and
  raises nothing; so does \<open>_fire_global_command\<close> when no loaded plugin knows the name,
  and \<open>_fire_plugin_command\<close> when the named plugin is loaded and does not know it.
  When the named plugin is not loaded, \<open>_fire_plugin_command\<close> schedules nothing and
  raises KeyError to its caller.
\<close>

theorem C6_unresolved_command:
  "(\<forall>p w g. commands p (command_name (wrapped_event w)) = None \<longrightarrow>
      Plugin_fire_command p w g = []) \<and>
   ((\<forall>p \<in> set (map snd (loaded_plugins m)). commands p (command_name cev) = None) \<longrightarrow>
      PluginManager__fire_global_command m cev = []) \<and>
   (\<forall>p. map_of (loaded_plugins m) pn = Some p \<and> commands p (command_name cev) = None \<longrightarrow>
      PluginManager__fire_plugin_command m pn cev = Inr []) \<and>
   (map_of (loaded_plugins m) pn = None \<longrightarrow>
      PluginManager__fire_plugin_command m pn cev = Inl KeyError)"
  using fire_global_command_unknown [of m cev]
  by (auto simp: PluginManager__fire_plugin_command_def fire_command_unknown
      PluginManager__wrap_event_def)

theorem C6_unresolved_command_witness:
  "Plugin_fire_command echo_plugin
     (PluginManager__wrap_event example_manager (shout_event\<lparr>command_name := ''nope''\<rparr>) echo_plugin)
     False = [] \<and>
   PluginManager__fire_global_command example_manager (shout_event\<lparr>command_name := ''nope''\<rparr>) = [] \<and>
   PluginManager__fire_plugin_command example_manager ''echo''
     (shout_event\<lparr>command_name := ''nope''\<rparr>) = Inr [] \<and>
   PluginManager__fire_plugin_command example_manager ''nope'' shout_event = Inl KeyError"
proof -
  let ?c = "shout_event\<lparr>command_name := ''nope''\<rparr>"
  have n: "command_name ?c = ''nope''" by simp
  have w: "commands echo_plugin (command_name (wrapped_event
      (PluginManager__wrap_event example_manager ?c echo_plugin))) = None"
    by (simp add: PluginManager__wrap_event_def echo_plugin_def Plugin_command_def Plugin_init_def)
  have u1: "\<forall>p \<in> set (map snd (loaded_plugins example_manager)). commands p (command_name ?c) = None"
    by (simp add: example_manager_def echo_plugin_def loud_plugin_def Plugin_command_def
        Plugin_init_def)
  have u2: "map_of (loaded_plugins example_manager) ''echo'' = Some echo_plugin"
    "commands echo_plugin (command_name ?c) = None"
    "map_of (loaded_plugins example_manager) ''nope'' = None"
    by (simp_all add: example_manager_def echo_plugin_def Plugin_command_def Plugin_init_def)
  from C6_unresolved_command [of example_manager ?c "''echo''"]
    C6_unresolved_command [of example_manager shout_event "''nope''"]
  show ?thesis using w u1 u2 by blast
qed

text \<open>
  The failure of a qualified command whose plugin is not loaded is not swallowed:
  \<open>_fire_plugin_command\<close> raises KeyError, and \<open>fire\<close> on such a message ends with an
  exception.
\<close>

theorem C6_unloaded_plugin_counterexample:
  "PluginManager__fire_plugin_command example_manager ''nope'' shout_event = Inl KeyError \<and>
   PluginManager_fire example_manager (public_message ''dywypi: nope.shout hi'') =
     ([], Some AttributeError)"
  by (simp add: fire_defs class_defs example_defs)

end
